theory Spec2Isabelle
  imports Main "HOL-Library.AList"
begin

section \<open>Data model\<close>

text \<open>
  The repository holds two generations of the class \<open>MessagingService\<close> that the
  properties below refer to. The one in \<^verbatim>\<open>src/connection.ts\<close> keeps channels without
  a handshake state; its functions carry the source's names. The one at the end of
  \<^verbatim>\<open>src/unnamed/part_002\<close> adds the field \<open>state\<close> to a channel, the state
  \<open>FIN\<close> and a one-shot timer that is re-armed; its functions carry the suffix
  \<open>_st\<close>. Functions whose text is the same in both are defined once.

  What the class cannot decide is an argument of the model: the strings drawn by
  \<open>GetRandomNumber\<close>, the identifiers returned by \<open>setInterval\<close> and
  \<open>setTimeout\<close>, whether \<open>postMessage\<close> of a peer window raises, and what a
  handler does when it is called. A logger is a sink: its \<open>log\<close> returns and does
  not call the service.
\<close>

definition WILDCARD_TARGET :: string where
  "WILDCARD_TARGET = ''*''"

definition UNKNOWN_DESTINATION :: string where
  "UNKNOWN_DESTINATION = ''UNKNOWN_DESTINATION''"

definition MINIMUM_TIMEOUT :: nat where
  "MINIMUM_TIMEOUT = 4"

text \<open>
  A \<open>WindowProxy\<close>, a handler and a logger are references to objects outside the
  class; \<open>None\<close> stands for \<open>null\<close> and \<open>undefined\<close>.
\<close>

type_synonym WindowProxy = nat

type_synonym MessageHandler = nat

type_synonym Logger = nat

datatype Outcome = Returns | Raises

record Channel =
  destination :: string
  initialized :: bool
  token :: string
  window :: "WindowProxy option"

record StateChannel = Channel +
  state :: string

datatype HTMLIFrameElement = IFrame (contentWindow: "WindowProxy option")

datatype WindowType = Window | Frame

text \<open>
  An inbound payload is typed \<open>any\<close> and read through two casts,
  \<open>ChannelInitializationMessage\<close> and \<open>ChannelMessage\<close>: one record with the fields of
  both. Only the presence of \<open>state\<close> is tested by the code, so only that field is
  optional. The falsy payloads are the values that fail \<open>if (event.data)\<close>. The type
  \<open>'n\<close> is the type of the numbers a peer may send as \<open>frame\<close>.
\<close>

record ('d, 'n) Message =
  msg_token :: string
  msg_source :: string
  msg_state :: "string option"
  msg_frame :: 'n
  msg_data :: 'd

datatype ('d, 'n) EventData =
  JNull | JUndefined | JZero | JEmptyString | JFalse | JObject "('d, 'n) Message"

record ('d, 'n) MessageEvent =
  origin :: string
  data :: "('d, 'n) EventData"
  source :: "WindowProxy option"

text \<open>
  The numbers the class handles: a received one, the literal \<open>1\<close>, and \<open>x + 1\<close> for a
  received \<open>x\<close>. The sum is the one JavaScript computes on its numbers; the model
  keeps it as written and never evaluates it.
\<close>

datatype 'n Number = Received 'n | One | PlusOne 'n

text \<open>The two shapes the class posts.\<close>

datatype 'n ChannelInitializationMessage =
  InitializationMessage (out_token: string) (out_source: string) (out_state: string)
    (out_frame: "'n Number")

datatype ('d, 'n) Posted =
    Init "'n ChannelInitializationMessage"
  | ChannelMessage string 'd

text \<open>
  The argument of \<open>log\<close> is a concatenation of strings and numbers; the text of a
  number is left as the number.
\<close>

datatype 'n Piece = Text string | NumberText "'n Number" | Decimal nat

datatype ('d, 'n) Effect =
    Post WindowProxy "('d, 'n) Posted" string
  | Invoke int 'd
  | Log "'n Piece list"
  | ClearInterval nat
  | SetInterval nat
  | SetTimeout nat nat

datatype Error =
    WildcardTarget
  | NoChannel
  | NoInitializedChannel
  | FrameOrContentWindowNull
  | OriginMismatch
  | UnexistingChannel string
  | TypeError
  | PostRaised
  | HandlerRaised

text \<open>
  What a handler does when it is called with a message: it may call the public
  methods of the service, and it returns or raises. A call of \<open>postMessage\<close> that
  raises inside a handler leaves the handler as its error.
\<close>

datatype 'd Call = Adds int MessageHandler | Removes int | Posts 'd

text \<open>
  The world around the class: \<open>postMessage\<close> of a window returns or raises, and a
  handler has a body.
\<close>

record ('d, 'n) Environment =
  window_postMessage :: "WindowProxy \<Rightarrow> ('d, 'n) Posted \<Rightarrow> string \<Rightarrow> Outcome"
  handler_body :: "MessageHandler \<Rightarrow> 'd \<Rightarrow> 'd Call list \<times> Outcome"

record 'c MessagingService =
  interval :: "nat option"
  handlers :: "(int \<times> MessageHandler) list"
  channels :: "(string \<times> 'c) list"
  self_id :: string
  target :: string
  frame :: "HTMLIFrameElement option"
  logger :: "Logger option"

text \<open>
  A call returns the service as it left it, what it did, in order, and the error it
  raised, if any. A \<open>Post\<close> is recorded when the peer's \<open>postMessage\<close> returned, an
  \<open>Invoke\<close> when the handler was called, a \<open>Log\<close> when the logger was called.
\<close>

type_synonym ('d, 'n) Done = "('d, 'n) Effect list \<times> Error option"

type_synonym ('c, 'd, 'n) Result = "'c MessagingService \<times> ('d, 'n) Effect list \<times> Error option"

definition following :: "('d, 'n) Effect list \<Rightarrow> ('d, 'n) Done \<Rightarrow> ('d, 'n) Done" where
  "following logged r = (logged @ fst r, snd r)"

definition after_effects :: "('d, 'n) Effect list \<Rightarrow> ('c, 'd, 'n) Result \<Rightarrow> ('c, 'd, 'n) Result" where
  "after_effects logged r = (fst r, logged @ fst (snd r), snd (snd r))"

section \<open>The JavaScript \<open>Map\<close>\<close>

text \<open>
  A \<open>Map\<close> iterates in insertion order and \<open>set\<close> on a present key keeps its place:
  an association list under \<open>AList.update\<close>.
\<close>

definition has :: "('k \<times> 'v) list \<Rightarrow> 'k \<Rightarrow> bool" where
  "has m k = (map_of m k \<noteq> None)"

definition get :: "('k \<times> 'v) list \<Rightarrow> 'k \<Rightarrow> 'v option" where
  "get m k = map_of m k"

definition set_entry :: "'k \<Rightarrow> 'v \<Rightarrow> ('k \<times> 'v) list \<Rightarrow> ('k \<times> 'v) list" where
  "set_entry k v m = AList.update k v m"

definition delete_entry :: "'k \<Rightarrow> ('k \<times> 'v) list \<Rightarrow> ('k \<times> 'v) list" where
  "delete_entry k m = AList.delete k m"

text \<open>\<open>forEach\<close> with a callback that may raise: the first error ends the iteration.\<close>

fun forEach :: "('a \<Rightarrow> 'e list \<times> Error option) \<Rightarrow> 'a list \<Rightarrow> 'e list \<times> Error option" where
  "forEach f [] = ([], None)"
| "forEach f (x # xs) =
     (case f x of
        (es, Some err) \<Rightarrow> (es, Some err)
      | (es, None) \<Rightarrow> (case forEach f xs of (es', r) \<Rightarrow> (es @ es', r)))"

text \<open>
  While \<open>forEach\<close> runs, the callback may change the \<open>Map\<close>. The iteration goes
  over the entries as they are when it reaches them: \<open>delete\<close> empties the entry
  where it stands, \<open>set\<close> on a present key writes the value in place, \<open>set\<close> on a
  new key appends an entry, which the iteration will reach. An emptied entry is
  \<open>None\<close>; it is skipped, and dropped when the iteration is over.
\<close>

fun live_set :: "'k \<Rightarrow> 'v \<Rightarrow> ('k \<times> 'v) option list \<Rightarrow> ('k \<times> 'v) option list" where
  "live_set k v [] = [Some (k, v)]"
| "live_set k v (None # es) = None # live_set k v es"
| "live_set k v (Some p # es) =
     (if fst p = k then Some (k, v) # es else Some p # live_set k v es)"

fun live_delete :: "'k \<Rightarrow> ('k \<times> 'v) option list \<Rightarrow> ('k \<times> 'v) option list" where
  "live_delete k [] = []"
| "live_delete k (None # es) = None # live_delete k es"
| "live_delete k (Some p # es) =
     (if fst p = k then None # live_delete k es else Some p # live_delete k es)"

fun compact :: "('k \<times> 'v) option list \<Rightarrow> ('k \<times> 'v) list" where
  "compact [] = []"
| "compact (None # es) = compact es"
| "compact (Some p # es) = p # compact es"

text \<open>
  One step of the iteration at position \<open>i\<close>, and the iteration from \<open>i\<close> on. A
  callback that keeps adding entries keeps the iteration going for ever: the
  iteration then has no result.
\<close>

definition visit ::
  "('a \<Rightarrow> 'a option list \<Rightarrow> 'a option list \<times> 'e list \<times> Error option) \<Rightarrow>
   'a option list \<Rightarrow> nat \<Rightarrow> 'a option list \<times> 'e list \<times> Error option" where
  "visit f es i = (case es ! i of None \<Rightarrow> (es, [], None) | Some entry \<Rightarrow> f entry es)"

partial_function (option) forEach_live ::
  "('a \<Rightarrow> 'a option list \<Rightarrow> 'a option list \<times> 'e list \<times> Error option) \<Rightarrow>
   'a option list \<Rightarrow> nat \<Rightarrow> 'e list \<Rightarrow> ('a option list \<times> 'e list \<times> Error option) option" where
  "forEach_live f es i acc =
     (if length es \<le> i then Some (es, acc, None)
      else if snd (snd (visit f es i)) \<noteq> None
        then Some (fst (visit f es i), acc @ fst (snd (visit f es i)), snd (snd (visit f es i)))
        else forEach_live f (fst (visit f es i)) (Suc i) (acc @ fst (snd (visit f es i))))"

declare forEach_live.simps [code]

section \<open>Functions shared by both generations\<close>

definition truthy :: "('d, 'n) EventData \<Rightarrow> bool" where
  "truthy d = (case d of JObject m \<Rightarrow> True | _ \<Rightarrow> False)"

definition state_truthy :: "('d, 'n) Message \<Rightarrow> bool" where
  "state_truthy m = (case msg_state m of None \<Rightarrow> False | Some st \<Rightarrow> st \<noteq> [])"

definition GetType :: "'c MessagingService \<Rightarrow> WindowType" where
  "GetType s = (case frame s of Some f \<Rightarrow> Window | None \<Rightarrow> Frame)"

text \<open>The string of a \<open>WindowType\<close>, and of a field that may be \<open>undefined\<close>.\<close>

definition type_text :: "WindowType \<Rightarrow> string" where
  "type_text t = (case t of Window \<Rightarrow> ''Window'' | Frame \<Rightarrow> ''Frame'')"

definition text_of :: "string option \<Rightarrow> string" where
  "text_of x = (case x of None \<Rightarrow> ''undefined'' | Some st \<Rightarrow> st)"

text \<open>\<open>this.logger?.log(...)\<close>: nothing without a logger.\<close>

definition log :: "'c MessagingService \<Rightarrow> 'n Piece list \<Rightarrow> ('d, 'n) Effect list" where
  "log s pieces = (case logger s of None \<Rightarrow> [] | Some l \<Rightarrow> [Log pieces])"

definition post :: "('d, 'n) Environment \<Rightarrow> WindowProxy \<Rightarrow> ('d, 'n) Posted \<Rightarrow> string \<Rightarrow> ('d, 'n) Done" where
  "post env w m tgt =
     (case window_postMessage env w m tgt of
        Returns \<Rightarrow> ([Post w m tgt], None)
      | Raises \<Rightarrow> ([], Some PostRaised))"

definition AtLeastOneInitializedChannel :: "('a Channel_scheme) MessagingService \<Rightarrow> bool" where
  "AtLeastOneInitializedChannel s =
     fold (\<lambda>(k, element) atLeastOne. if initialized element then True else atLeastOne) (channels s) False"

text \<open>The identifier of a handler is \<open>parseInt(this.GetRandomNumber())\<close>, an argument here.\<close>

definition addMessageHandler ::
  "int \<Rightarrow> MessageHandler \<Rightarrow> 'c MessagingService \<Rightarrow> 'c MessagingService \<times> int" where
  "addMessageHandler handlerId handler s =
     (s\<lparr>handlers := set_entry handlerId handler (handlers s)\<rparr>, handlerId)"

definition removeMessageHandler :: "int \<Rightarrow> 'c MessagingService \<Rightarrow> 'c MessagingService" where
  "removeMessageHandler handlerId s =
     (if has (handlers s) handlerId then s\<lparr>handlers := delete_entry handlerId (handlers s)\<rparr> else s)"

text \<open>\<open>if (this.interval) { clearInterval(this.interval); }\<close>: the field itself is kept.\<close>

definition clear_timer :: "'c MessagingService \<Rightarrow> ('d, 'n) Effect list" where
  "clear_timer s =
     (case interval s of
        None \<Rightarrow> []
      | Some n \<Rightarrow> if n \<noteq> 0 then [ClearInterval n] else [])"

text \<open>
  The calls a handler makes while the handlers are iterated, on the entries of the
  iteration; \<open>p\<close> is \<open>postMessage\<close> of the service. Then the call of one handler:
  it is invoked, makes its calls, and returns or raises.
\<close>

fun run_calls ::
  "('d \<Rightarrow> ('d, 'n) Done) \<Rightarrow> 'd Call list \<Rightarrow> (int \<times> MessageHandler) option list \<Rightarrow>
   (int \<times> MessageHandler) option list \<times> ('d, 'n) Effect list \<times> Error option" where
  "run_calls p [] es = (es, [], None)"
| "run_calls p (Adds handlerId handler # cs) es = run_calls p cs (live_set handlerId handler es)"
| "run_calls p (Removes handlerId # cs) es = run_calls p cs (live_delete handlerId es)"
| "run_calls p (Posts d # cs) es =
     (case p d of
        (out, Some err) \<Rightarrow> (es, out, Some err)
      | (out, None) \<Rightarrow> (case run_calls p cs es of (es', out', r) \<Rightarrow> (es', out @ out', r)))"

definition call_handler ::
  "('d, 'n) Environment \<Rightarrow> ('d \<Rightarrow> ('d, 'n) Done) \<Rightarrow> 'd \<Rightarrow> int \<times> MessageHandler \<Rightarrow>
   (int \<times> MessageHandler) option list \<Rightarrow>
   (int \<times> MessageHandler) option list \<times> ('d, 'n) Effect list \<times> Error option" where
  "call_handler env p d entry es =
     (case handler_body env (snd entry) d of
        (calls, outcome) \<Rightarrow>
          (case run_calls p calls es of
             (es', out, Some err) \<Rightarrow> (es', Invoke (fst entry) d # out, Some err)
           | (es', out, None) \<Rightarrow>
               (es', Invoke (fst entry) d # out,
                case outcome of Returns \<Rightarrow> None | Raises \<Rightarrow> Some HandlerRaised)))"

section \<open>The generation of \<^verbatim>\<open>src/connection.ts\<close>\<close>

definition constructor ::
  "string \<Rightarrow> HTMLIFrameElement option \<Rightarrow> string option \<Rightarrow> Logger option \<Rightarrow> string \<Rightarrow> nat \<Rightarrow>
   Error + Channel MessagingService \<times> ('d, 'n) Effect list" where
  "constructor tgt frm overrideId lg rnd timerId =
     (if tgt = WILDCARD_TARGET then Inl WildcardTarget
      else
        let s = \<lparr>interval = None, handlers = [], channels = [],
                 self_id = (case overrideId of Some i \<Rightarrow> i | None \<Rightarrow> rnd),
                 target = tgt, frame = frm, logger = lg\<rparr>
        in (case frm of
              Some f \<Rightarrow> Inr (s\<lparr>interval := Some timerId\<rparr>, [SetInterval timerId])
            | None \<Rightarrow> Inr (s, [])))"

text \<open>The two lines \<open>postMessageInternal\<close> logs before it posts.\<close>

definition send_log :: "'c MessagingService \<Rightarrow> 'a Channel_scheme \<Rightarrow> ('d, 'n) Effect list" where
  "send_log s channel =
     log s [Text (''send message to: '' @ destination channel @ '' with token: '' @ token channel)]
     @ log s [Text (''send message using: '' @ type_text (GetType s))]"

definition postMessageInternal ::
  "('d, 'n) Environment \<Rightarrow> 'c MessagingService \<Rightarrow> ('d, 'n) Posted \<Rightarrow> 'a Channel_scheme \<Rightarrow> ('d, 'n) Done" where
  "postMessageInternal env s m channel =
     (case window channel of
        None \<Rightarrow> ([], None)
      | Some w \<Rightarrow>
          following (send_log s channel)
            (case GetType s of
               Window \<Rightarrow> post env w m (target s)
             | Frame \<Rightarrow> post env w m (target s)))"

definition handshake_log :: "'c MessagingService \<Rightarrow> 'n ChannelInitializationMessage \<Rightarrow> ('d, 'n) Effect list" where
  "handshake_log s m = log s [Text (''send handshake with state: '' @ out_state m)]"

definition postInitializationMessage ::
  "('d, 'n) Environment \<Rightarrow> 'c MessagingService \<Rightarrow> 'n ChannelInitializationMessage \<Rightarrow> 'a Channel_scheme \<Rightarrow>
   ('d, 'n) Done" where
  "postInitializationMessage env s m channel =
     following (handshake_log s m) (postMessageInternal env s (Init m) channel)"

definition postEach ::
  "('d, 'n) Environment \<Rightarrow> Channel MessagingService \<Rightarrow> 'd \<Rightarrow> string \<times> Channel \<Rightarrow> ('d, 'n) Done" where
  "postEach env s d entry =
     (let channel = snd entry
      in postMessageInternal env s (ChannelMessage (token channel) d) channel)"

definition postMessage ::
  "('d, 'n) Environment \<Rightarrow> Channel MessagingService \<Rightarrow> 'd \<Rightarrow> (Channel, 'd, 'n) Result" where
  "postMessage env s d =
     (if length (channels s) = 0 then (s, [], Some NoChannel)
      else if \<not> AtLeastOneInitializedChannel s then (s, [], Some NoInitializedChannel)
      else (case forEach (postEach env s d) (channels s) of (es, r) \<Rightarrow> (s, es, r)))"

definition connectToFrame ::
  "('d, 'n) Environment \<Rightarrow> string \<Rightarrow> Channel MessagingService \<Rightarrow> (Channel, 'd, 'n) Result" where
  "connectToFrame env rnd s =
     (case frame s of
        None \<Rightarrow> (s, [], Some FrameOrContentWindowNull)
      | Some f \<Rightarrow>
          (case contentWindow f of
             None \<Rightarrow> (s, [], Some FrameOrContentWindowNull)
           | Some w \<Rightarrow>
               let tok = rnd;
                   channel = \<lparr>destination = UNKNOWN_DESTINATION, initialized = False,
                              token = tok, window = Some w\<rparr>;
                   s1 = s\<lparr>channels := set_entry tok channel (channels s)\<rparr>
               in (case postInitializationMessage env s1
                          (InitializationMessage tok (self_id s1) ''SYN'' One) channel of
                     (es, r) \<Rightarrow> (s1, es, r))))"

text \<open>The line \<open>initialize\<close> logs first.\<close>

definition initialization_log :: "'c MessagingService \<Rightarrow> ('d, 'n) Message \<Rightarrow> ('d, 'n) Effect list" where
  "initialization_log s message =
     log s [Text (''receive initialization with state: '' @ text_of (msg_state message) @ '', frame: ''),
            NumberText (Received (msg_frame message))]"

text \<open>
  The branches of \<open>initialize\<close> on the message \<open>event.data\<close>; \<open>src\<close> is
  \<open>event.source\<close>. \<open>channels.get\<close> after \<open>channels.has\<close> always finds the channel;
  the test \<open>!channel\<close> is kept as the branch \<open>None\<close>.
\<close>

definition on_message ::
  "('d, 'n) Environment \<Rightarrow> Channel MessagingService \<Rightarrow> WindowProxy option \<Rightarrow> ('d, 'n) Message \<Rightarrow>
   (Channel, 'd, 'n) Result" where
  "on_message env s src message =
     after_effects (initialization_log s message)
     (if msg_state message = Some ''SYN+ACK'' then
        (if has (channels s) (msg_token message) then
           (case get (channels s) (msg_token message) of
              None \<Rightarrow> (s, [], None)
            | Some channel \<Rightarrow>
                if initialized channel then (s, [], None)
                else
                  let updatedOrNewChannel =
                        \<lparr>destination = msg_source message, initialized = True,
                         token = msg_token message, window = window channel\<rparr>;
                      s1 = s\<lparr>channels := set_entry (msg_token message) updatedOrNewChannel (channels s)\<rparr>
                  in (case postInitializationMessage env s1
                             (InitializationMessage (msg_token message) (self_id s1) ''ACK''
                                (PlusOne (msg_frame message)))
                             updatedOrNewChannel of
                        (es, Some err) \<Rightarrow> (s1, es, Some err)
                      | (es, None) \<Rightarrow> (s1, es @ clear_timer s1, None)))
         else (s, [], None))
      else if msg_state message = Some ''SYN'' then
        (let updatedOrNewChannel =
               \<lparr>destination = UNKNOWN_DESTINATION, initialized = False,
                token = msg_token message, window = src\<rparr>;
             s1 = s\<lparr>channels := set_entry (msg_token message) updatedOrNewChannel (channels s)\<rparr>
         in (case postInitializationMessage env s1
                    (InitializationMessage (msg_token message) (self_id s1) ''SYN+ACK''
                       (PlusOne (msg_frame message)))
                    updatedOrNewChannel of
               (es, r) \<Rightarrow> (s1, es, r)))
      else if msg_state message = Some ''ACK'' then
        (if has (channels s) (msg_token message) then
           (case get (channels s) (msg_token message) of
              None \<Rightarrow> (s, [], None)
            | Some channel \<Rightarrow>
                if initialized channel then (s, [], None)
                else
                  let updatedOrNewChannel =
                        \<lparr>destination = msg_source message, initialized = True,
                         token = msg_token message, window = window channel\<rparr>
                  in (s\<lparr>channels := set_entry (msg_token message) updatedOrNewChannel (channels s)\<rparr>,
                      [], None))
         else (s, [], None))
      else (s, [], None))"

text \<open>
  \<open>initialize\<close> reads \<open>event.data\<close> as a message. Reading a field of \<open>null\<close> or
  \<open>undefined\<close> raises; the other falsy values have no fields, so the line logged
  names them \<open>undefined\<close> and no branch is taken. The listener only calls it on a
  truthy payload.
\<close>

definition initialize ::
  "('d, 'n) Environment \<Rightarrow> Channel MessagingService \<Rightarrow> ('d, 'n) MessageEvent \<Rightarrow> (Channel, 'd, 'n) Result" where
  "initialize env s event =
     (case data event of
        JObject message \<Rightarrow> on_message env s (source event) message
      | JNull \<Rightarrow> (s, [], Some TypeError)
      | JUndefined \<Rightarrow> (s, [], Some TypeError)
      | _ \<Rightarrow> (s, log s [Text ''receive initialization with state: undefined, frame: undefined''], None))"

text \<open>The line \<open>dispatchEvent\<close> logs before it calls the handlers.\<close>

definition from_log :: "('a Channel_scheme) MessagingService \<Rightarrow> ('d, 'n) Message \<Rightarrow> ('d, 'n) Effect list" where
  "from_log s channelMessage =
     log s [Text (''receive a message from: '' @
              text_of (map_option destination (get (channels s) (msg_token channelMessage))))]"

text \<open>
  \<open>dispatchEvent\<close>: the handlers are iterated while they may change. A dispatch
  that never ends has no result.
\<close>

definition dispatchEvent ::
  "('d, 'n) Environment \<Rightarrow> Channel MessagingService \<Rightarrow> ('d, 'n) Message \<Rightarrow> (Channel, 'd, 'n) Result option" where
  "dispatchEvent env s channelMessage =
     (if \<not> has (channels s) (msg_token channelMessage)
      then Some (s, log s [Text ''receive a message with no valid token. drop.''], None)
      else
        (case forEach_live
                (call_handler env (\<lambda>d. snd (postMessage env s d)) (msg_data channelMessage))
                (map Some (handlers s)) 0
                (from_log s channelMessage) of
           None \<Rightarrow> None
         | Some (es, out, r) \<Rightarrow> Some (s\<lparr>handlers := compact es\<rparr>, out, r)))"

text \<open>The line the listener logs after the test of the origin.\<close>

definition receive_log :: "'c MessagingService \<Rightarrow> ('d, 'n) Effect list" where
  "receive_log s =
     log s [Text (''receive message on '' @ self_id s @ '', type: '' @ type_text (GetType s))]"

definition listener ::
  "('d, 'n) Environment \<Rightarrow> Channel MessagingService \<Rightarrow> ('d, 'n) MessageEvent \<Rightarrow> (Channel, 'd, 'n) Result option" where
  "listener env s event =
     (if origin event \<noteq> target s then Some (s, [], Some OriginMismatch)
      else
        map_option (after_effects (receive_log s))
          (if truthy (data event) then
             (case data event of
                JObject initializationMessage \<Rightarrow>
                  if state_truthy initializationMessage then Some (initialize env s event)
                  else dispatchEvent env s initializationMessage
              | _ \<Rightarrow> Some (s, [], None))
           else Some (s, [], None)))"

section \<open>The generation of \<^verbatim>\<open>src/unnamed/part_002\<close>, with a state in each channel\<close>

text \<open>
  \<open>delayConnectToFrame\<close>: \<open>Math.floor(Math.random() * 100 + MINIMUM_TIMEOUT)\<close> is the
  number \<open>r + MINIMUM_TIMEOUT\<close>, and \<open>timerId\<close> is the identifier \<open>setTimeout\<close>
  returns.
\<close>

definition delayConnectToFrame ::
  "nat \<Rightarrow> nat \<Rightarrow> 'c MessagingService \<Rightarrow> 'c MessagingService \<times> ('d, 'n) Effect list" where
  "delayConnectToFrame r timerId s =
     (let timeout = r + MINIMUM_TIMEOUT
      in (s\<lparr>interval := Some timerId\<rparr>,
          log s [Text ''setInterval with delay: '', Decimal timeout, Text (''ms, for: '' @ self_id s)]
          @ [SetTimeout timerId timeout]))"

definition constructor_st ::
  "string \<Rightarrow> HTMLIFrameElement option \<Rightarrow> string option \<Rightarrow> Logger option \<Rightarrow> string \<Rightarrow> nat \<Rightarrow> nat \<Rightarrow>
   Error + StateChannel MessagingService \<times> ('d, 'n) Effect list" where
  "constructor_st tgt frm overrideId lg rnd r timerId =
     (if tgt = WILDCARD_TARGET then Inl WildcardTarget
      else
        let s = \<lparr>interval = None, handlers = [], channels = [],
                 self_id = (case overrideId of Some i \<Rightarrow> i | None \<Rightarrow> rnd),
                 target = tgt, frame = frm, logger = lg\<rparr>
        in (case frm of
              Some f \<Rightarrow> Inr (delayConnectToFrame r timerId s)
            | None \<Rightarrow> Inr (s, [])))"

text \<open>The line \<open>postMessageInternal\<close> of this generation logs before it posts.\<close>

definition send_log_st :: "'c MessagingService \<Rightarrow> 'a Channel_scheme \<Rightarrow> ('d, 'n) Effect list" where
  "send_log_st s channel =
     log s [Text (''send message to: '' @ destination channel @ '' with token: '' @ token channel
                  @ '', from: '' @ self_id s)]"

definition postMessageInternal_st ::
  "('d, 'n) Environment \<Rightarrow> 'c MessagingService \<Rightarrow> ('d, 'n) Posted \<Rightarrow> 'a Channel_scheme \<Rightarrow> ('d, 'n) Done" where
  "postMessageInternal_st env s m channel =
     (case window channel of
        None \<Rightarrow> ([], None)
      | Some w \<Rightarrow>
          following (send_log_st s channel)
            (case GetType s of
               Window \<Rightarrow> post env w m (target s)
             | Frame \<Rightarrow> post env w m (target s)))"

definition handshake_log_st :: "'c MessagingService \<Rightarrow> 'n ChannelInitializationMessage \<Rightarrow> ('d, 'n) Effect list" where
  "handshake_log_st s m =
     log s [Text (''send handshake with state: '' @ out_state m @ '', frame: ''), NumberText (out_frame m)]"

definition postInitializationMessage_st ::
  "('d, 'n) Environment \<Rightarrow> 'c MessagingService \<Rightarrow> 'n ChannelInitializationMessage \<Rightarrow> 'a Channel_scheme \<Rightarrow>
   ('d, 'n) Done" where
  "postInitializationMessage_st env s m channel =
     following (handshake_log_st s m) (postMessageInternal_st env s (Init m) channel)"

definition postEach_st ::
  "('d, 'n) Environment \<Rightarrow> StateChannel MessagingService \<Rightarrow> 'd \<Rightarrow> string \<times> StateChannel \<Rightarrow> ('d, 'n) Done" where
  "postEach_st env s d entry =
     (let channel = snd entry
      in if \<not> initialized channel then ([], None)
         else postMessageInternal_st env s (ChannelMessage (token channel) d) channel)"

definition postMessage_st ::
  "('d, 'n) Environment \<Rightarrow> StateChannel MessagingService \<Rightarrow> 'd \<Rightarrow> (StateChannel, 'd, 'n) Result" where
  "postMessage_st env s d =
     (if length (channels s) = 0 then (s, [], Some NoChannel)
      else if \<not> AtLeastOneInitializedChannel s then (s, [], Some NoInitializedChannel)
      else (case forEach (postEach_st env s d) (channels s) of (es, r) \<Rightarrow> (s, es, r)))"

text \<open>
  \<open>connectToFrame\<close> of this generation: the loop over the registry returns at the first
  channel whose state is not \<open>SYN\<close>.
\<close>

definition connectToFrame_st ::
  "('d, 'n) Environment \<Rightarrow> string \<Rightarrow> nat \<Rightarrow> nat \<Rightarrow> HTMLIFrameElement \<Rightarrow> StateChannel MessagingService \<Rightarrow>
   (StateChannel, 'd, 'n) Result" where
  "connectToFrame_st env rnd r timerId frm s =
     (if list_ex (\<lambda>(key, val). state val \<noteq> ''SYN'') (channels s) then (s, [], None)
      else
        let s0 = s\<lparr>channels := []\<rparr>;
            tok = rnd;
            channel = \<lparr>destination = UNKNOWN_DESTINATION, initialized = False,
                       token = tok, window = contentWindow frm, state = ''SYN''\<rparr>;
            s1 = s0\<lparr>channels := set_entry tok channel (channels s0)\<rparr>
        in (case postInitializationMessage_st env s1
                   (InitializationMessage tok (self_id s1) ''SYN'' One) channel of
              (es, Some err) \<Rightarrow> (s1, es, Some err)
            | (es, None) \<Rightarrow>
                (case delayConnectToFrame r timerId s1 of (s2, es') \<Rightarrow> (s2, es @ es', None))))"

definition initialization_log_st :: "'c MessagingService \<Rightarrow> ('d, 'n) Message \<Rightarrow> ('d, 'n) Effect list" where
  "initialization_log_st s message =
     log s [Text (''receive initialization with state: '' @ text_of (msg_state message) @ '', frame: ''),
            NumberText (Received (msg_frame message)),
            Text ('', token: '' @ msg_token message @ '', source: '' @ msg_source message)]"

text \<open>
  The branches of \<open>initialize\<close> of this generation. It does not test
  \<open>channel.initialized\<close>, and raises when \<open>channels.get\<close> finds nothing.
\<close>

definition on_message_st ::
  "('d, 'n) Environment \<Rightarrow> StateChannel MessagingService \<Rightarrow> WindowProxy option \<Rightarrow> ('d, 'n) Message \<Rightarrow>
   (StateChannel, 'd, 'n) Result" where
  "on_message_st env s src message =
     after_effects (initialization_log_st s message)
     (if msg_state message = Some ''SYN+ACK'' then
        (if \<not> has (channels s) (msg_token message) then (s, [], None)
         else
           (case get (channels s) (msg_token message) of
              None \<Rightarrow> (s, [], Some (UnexistingChannel (msg_token message)))
            | Some channel \<Rightarrow>
                let updatedOrNewChannel =
                      \<lparr>destination = msg_source message, initialized = True,
                       token = msg_token message, window = window channel, state = ''ACK''\<rparr>;
                    nextState = ''ACK'';
                    s1 = s\<lparr>channels := set_entry (msg_token message) updatedOrNewChannel (channels s)\<rparr>
                in (case postInitializationMessage_st env s1
                           (InitializationMessage (msg_token message) (self_id s1) nextState
                              (PlusOne (msg_frame message)))
                           updatedOrNewChannel of
                      (es, Some err) \<Rightarrow> (s1, es, Some err)
                    | (es, None) \<Rightarrow> (s1, es @ clear_timer s1, None))))
      else if msg_state message = Some ''SYN'' then
        (let updatedOrNewChannel =
               \<lparr>destination = UNKNOWN_DESTINATION, initialized = False,
                token = msg_token message, window = src, state = ''SYN+ACK''\<rparr>;
             nextState = ''SYN+ACK'';
             s1 = s\<lparr>channels := set_entry (msg_token message) updatedOrNewChannel (channels s)\<rparr>
         in (case postInitializationMessage_st env s1
                    (InitializationMessage (msg_token message) (self_id s1) nextState
                       (PlusOne (msg_frame message)))
                    updatedOrNewChannel of
               (es, r) \<Rightarrow> (s1, es, r)))
      else if msg_state message = Some ''ACK'' then
        (if \<not> has (channels s) (msg_token message) then (s, [], None)
         else
           (case get (channels s) (msg_token message) of
              None \<Rightarrow> (s, [], Some (UnexistingChannel (msg_token message)))
            | Some channel \<Rightarrow>
                let updatedOrNewChannel =
                      \<lparr>destination = msg_source message, initialized = True,
                       token = msg_token message, window = window channel, state = ''FIN''\<rparr>
                in (s\<lparr>channels := set_entry (msg_token message) updatedOrNewChannel (channels s)\<rparr>,
                    [], None)))
      else (s, [], None))"

definition initialize_st ::
  "('d, 'n) Environment \<Rightarrow> StateChannel MessagingService \<Rightarrow> ('d, 'n) MessageEvent \<Rightarrow>
   (StateChannel, 'd, 'n) Result" where
  "initialize_st env s event =
     (case data event of
        JObject message \<Rightarrow> on_message_st env s (source event) message
      | JNull \<Rightarrow> (s, [], Some TypeError)
      | JUndefined \<Rightarrow> (s, [], Some TypeError)
      | _ \<Rightarrow> (s, log s [Text ''receive initialization with state: undefined, frame: undefined, token: undefined, source: undefined''], None))"

definition dispatchEvent_st ::
  "('d, 'n) Environment \<Rightarrow> StateChannel MessagingService \<Rightarrow> ('d, 'n) Message \<Rightarrow>
   (StateChannel, 'd, 'n) Result option" where
  "dispatchEvent_st env s channelMessage =
     (if \<not> has (channels s) (msg_token channelMessage) then Some (s, [], None)
      else
        (case forEach_live
                (call_handler env (\<lambda>d. snd (postMessage_st env s d)) (msg_data channelMessage))
                (map Some (handlers s)) 0
                (from_log s channelMessage) of
           None \<Rightarrow> None
         | Some (es, out, r) \<Rightarrow> Some (s\<lparr>handlers := compact es\<rparr>, out, r)))"

definition listener_st ::
  "('d, 'n) Environment \<Rightarrow> StateChannel MessagingService \<Rightarrow> ('d, 'n) MessageEvent \<Rightarrow>
   (StateChannel, 'd, 'n) Result option" where
  "listener_st env s event =
     (if origin event \<noteq> target s then Some (s, [], Some OriginMismatch)
      else if truthy (data event) then
        (case data event of
           JObject initializationMessage \<Rightarrow>
             if state_truthy initializationMessage then Some (initialize_st env s event)
             else dispatchEvent_st env s initializationMessage
         | _ \<Rightarrow> Some (s, [], None))
      else Some (s, [], None))"

section \<open>Runs of a service\<close>

text \<open>
  What can happen to an instance after its construction: its timer fires, the window
  delivers a message event, or the owner calls a public method. A run keeps the service
  also when the call raised, as the instance lives on. A dispatch that never ends
  leaves no later state; the run stays where it was.
\<close>

datatype ('d, 'n) Action =
    TimerFires string nat nat
  | Receive "('d, 'n) MessageEvent"
  | CallPostMessage 'd
  | CallAddMessageHandler int MessageHandler
  | CallRemoveMessageHandler int

fun step :: "('d, 'n) Environment \<Rightarrow> Channel MessagingService \<Rightarrow> ('d, 'n) Action \<Rightarrow> Channel MessagingService" where
  "step env s (TimerFires rnd r timerId) = fst (connectToFrame env rnd s)"
| "step env s (Receive event) = (case listener env s event of None \<Rightarrow> s | Some result \<Rightarrow> fst result)"
| "step env s (CallPostMessage d) = fst (postMessage env s d)"
| "step env s (CallAddMessageHandler handlerId handler) = fst (addMessageHandler handlerId handler s)"
| "step env s (CallRemoveMessageHandler handlerId) = removeMessageHandler handlerId s"

definition run :: "('d, 'n) Environment \<Rightarrow> Channel MessagingService \<Rightarrow> ('d, 'n) Action list \<Rightarrow> Channel MessagingService" where
  "run env s acts = foldl (step env) s acts"

text \<open>
  In the generation with channel states the timer is armed with the frame as argument,
  and only on a service that holds a frame.
\<close>

fun step_st :: "('d, 'n) Environment \<Rightarrow> StateChannel MessagingService \<Rightarrow> ('d, 'n) Action \<Rightarrow> StateChannel MessagingService" where
  "step_st env s (TimerFires rnd r timerId) =
     (case frame s of
        None \<Rightarrow> s
      | Some frm \<Rightarrow> fst (connectToFrame_st env rnd r timerId frm s))"
| "step_st env s (Receive event) = (case listener_st env s event of None \<Rightarrow> s | Some result \<Rightarrow> fst result)"
| "step_st env s (CallPostMessage d) = fst (postMessage_st env s d)"
| "step_st env s (CallAddMessageHandler handlerId handler) = fst (addMessageHandler handlerId handler s)"
| "step_st env s (CallRemoveMessageHandler handlerId) = removeMessageHandler handlerId s"

definition run_st :: "('d, 'n) Environment \<Rightarrow> StateChannel MessagingService \<Rightarrow> ('d, 'n) Action list \<Rightarrow> StateChannel MessagingService" where
  "run_st env s acts = foldl (step_st env) s acts"

section \<open>Predicates of the properties\<close>





text \<open>An action in which no peer announces the sentinel as its identity.\<close>

definition sentinel_free :: "('d, 'n) Action \<Rightarrow> bool" where
  "sentinel_free a =
     (case a of
        Receive event \<Rightarrow>
          (case data event of
             JObject m \<Rightarrow> msg_source m \<noteq> UNKNOWN_DESTINATION
           | _ \<Rightarrow> True)
      | _ \<Rightarrow> True)"

definition initialized_known :: "('a Channel_scheme) MessagingService \<Rightarrow> bool" where
  "initialized_known s =
     list_all (\<lambda>(k, c). initialized c \<longrightarrow> destination c \<noteq> UNKNOWN_DESTINATION) (channels s)"

definition syn_channels :: "StateChannel MessagingService \<Rightarrow> (string \<times> StateChannel) list" where
  "syn_channels s = filter (\<lambda>(k, c). state c = ''SYN'') (channels s)"








section \<open>The demonstration pages as instances\<close>

text \<open>
  The pages of the repository build a service \<open>mainWindow\<close> that holds a frame and a
  service \<open>iframe\<close> that holds none, both with the same target origin; some pages
  pass a logger. Data are strings and the frames that arrive are integers.
\<close>

definition demo_target :: string where
  "demo_target = ''http://192.168.156.168:8080''"

definition mainWindow :: "Channel MessagingService" where
  "mainWindow = \<lparr>interval = Some 1, handlers = [], channels = [], self_id = ''mainWindow'',
                  target = demo_target, frame = Some (IFrame (Some 7)), logger = None\<rparr>"

definition iframe :: "Channel MessagingService" where
  "iframe = \<lparr>interval = None, handlers = [], channels = [], self_id = ''iframe'',
              target = demo_target, frame = None, logger = None\<rparr>"


definition mainWindow_st :: "StateChannel MessagingService" where
  "mainWindow_st = \<lparr>interval = Some 1, handlers = [], channels = [], self_id = ''mainWindow'',
                     target = demo_target, frame = Some (IFrame (Some 7)), logger = None\<rparr>"


definition handshake_message :: "string \<Rightarrow> string \<Rightarrow> string \<Rightarrow> int \<Rightarrow> (string, int) Message" where
  "handshake_message st tok src fr =
     \<lparr>msg_token = tok, msg_source = src, msg_state = Some st, msg_frame = fr, msg_data = []\<rparr>"

definition handshake_event :: "string \<Rightarrow> string \<Rightarrow> string \<Rightarrow> int \<Rightarrow> WindowProxy option \<Rightarrow> (string, int) MessageEvent" where
  "handshake_event st tok src fr w =
     \<lparr>origin = demo_target, data = JObject (handshake_message st tok src fr), source = w\<rparr>"




definition faulty :: MessageHandler where
  "faulty = 1"

definition remover :: MessageHandler where
  "remover = 2"

definition demo_body :: "MessageHandler \<Rightarrow> string \<Rightarrow> string Call list \<times> Outcome" where
  "demo_body h d =
     (if h = faulty then ([], Raises)
      else if h = remover then ([Removes 2], Returns)
      else ([], Returns))"

definition reliable :: "(string, int) Environment" where
  "reliable = \<lparr>window_postMessage = (\<lambda>w m tgt. Returns), handler_body = demo_body\<rparr>"





definition mainWindow_connected_st :: "StateChannel MessagingService" where
  "mainWindow_connected_st =
     run_st reliable mainWindow_st
       [TimerFires ''111111'' 10 2,
        Receive (handshake_event ''SYN+ACK'' ''111111'' ''iframe'' 2 (Some 7))]"







text \<open>The window's service after its timer has fired once.\<close>

definition mainWindow_waiting :: "Channel MessagingService" where
  "mainWindow_waiting = run reliable mainWindow [TimerFires ''111111'' 10 2]"

definition mainWindow_waiting_st :: "StateChannel MessagingService" where
  "mainWindow_waiting_st = run_st reliable mainWindow_st [TimerFires ''111111'' 10 2]"

section \<open>Facts about the map and the loops\<close>



lemma fold_flag:
  "fold (\<lambda>(k, element) atLeastOne. if initialized element then True else atLeastOne) xs b
     = (b \<or> (\<exists>e\<in>set xs. initialized (snd e)))"
  by (induction xs arbitrary: b) (auto split: prod.splits)

lemma AtLeastOneInitializedChannel_iff:
  "AtLeastOneInitializedChannel s \<longleftrightarrow> (\<exists>e\<in>set (channels s). initialized (snd e))"
  by (simp add: AtLeastOneInitializedChannel_def fold_flag)

lemma fst_after_effects: "fst (after_effects logged r) = fst r"
  by (simp add: after_effects_def)


lemma following_pair: "following logged (es, r) = (logged @ es, r)"
  by (simp add: following_def)

lemma snd_following: "snd (following logged r) = snd r"
  by (simp add: following_def)

text \<open>
  Outside an iteration the entries with their emptied places are the \<open>Map\<close> itself:
  dropping the emptied places commutes with \<open>set\<close> and \<open>delete\<close>.
\<close>

lemma compact_live_set: "compact (live_set k v es) = AList.update k v (compact es)"
  by (induction k v es rule: live_set.induct) auto

lemma compact_live_delete: "compact (live_delete k es) = AList.delete k (compact es)"
  by (induction k es rule: live_delete.induct) auto


lemma postMessageInternal_error:
  "snd (postMessageInternal env s m c) = None \<or> snd (postMessageInternal env s m c) = Some PostRaised"
  by (auto simp: postMessageInternal_def post_def following_def
           split: option.splits WindowType.splits Outcome.splits)

lemma postMessageInternal_st_error:
  "snd (postMessageInternal_st env s m c) = None \<or> snd (postMessageInternal_st env s m c) = Some PostRaised"
  by (auto simp: postMessageInternal_st_def post_def following_def
           split: option.splits WindowType.splits Outcome.splits)

section \<open>The flag \<open>initialized\<close> under handshake messages\<close>












section \<open>Failures of \<open>postMessage\<close>\<close>

lemma forEach_postEach_error:
  "snd (forEach (postEach env s d) xs) = None \<or> snd (forEach (postEach env s d) xs) = Some PostRaised"
proof (induction xs)
  case Nil
  show ?case by simp
next
  case (Cons x xs)
  obtain es r where fx: "postEach env s d x = (es, r)" by (cases "postEach env s d x")
  have "r = None \<or> r = Some PostRaised"
    using postMessageInternal_error [of env s "ChannelMessage (token (snd x)) d" "snd x"] fx
    by (simp add: postEach_def Let_def)
  with Cons fx show ?case
    by (auto split: prod.splits option.splits)
qed

text \<open>
  C3. \<open>postMessage\<close> raises \<open>No channel.\<close> exactly when the registry is empty, and
  \<open>No channel initialized\<close> exactly when the registry is not empty and no channel in
  it is initialized. The call never changes the service, and under either of the two
  failures nothing is posted.
\<close>

theorem postMessage_failures:
  "(snd (snd (postMessage env s d)) = Some NoChannel \<longleftrightarrow> channels s = []) \<and>
   (snd (snd (postMessage env s d)) = Some NoInitializedChannel \<longleftrightarrow>
      channels s \<noteq> [] \<and> \<not> (\<exists>e\<in>set (channels s). initialized (snd e))) \<and>
   fst (postMessage env s d) = s \<and>
   (snd (snd (postMessage env s d)) = Some NoChannel \<or>
    snd (snd (postMessage env s d)) = Some NoInitializedChannel \<longrightarrow>
      fst (snd (postMessage env s d)) = [])"
  using forEach_postEach_error [of env s d "channels s"]
  by (auto simp: postMessage_def AtLeastOneInitializedChannel_iff split: prod.splits)

theorem postMessage_failures_witness:
  "postMessage reliable iframe ''qqqq'' = (iframe, [], Some NoChannel) \<and>
   postMessage reliable
       (run reliable iframe [Receive (handshake_event ''SYN'' ''111111'' ''mainWindow'' 1 (Some 3))])
       ''qqqq''
     = (run reliable iframe [Receive (handshake_event ''SYN'' ''111111'' ''mainWindow'' 1 (Some 3))],
        [], Some NoInitializedChannel)"
proof -
  let ?s = "run reliable iframe [Receive (handshake_event ''SYN'' ''111111'' ''mainWindow'' 1 (Some 3))]"
  have a: "channels iframe = []"
    by (simp add: iframe_def)
  have "channels ?s = [(''111111'', \<lparr>destination = ''UNKNOWN_DESTINATION'', initialized = False,
                                     token = ''111111'', window = Some 3\<rparr>)]"
    by code_simp
  then have b: "channels ?s \<noteq> [] \<and> \<not> (\<exists>e\<in>set (channels ?s). initialized (snd e))"
    by simp
  show ?thesis
    using postMessage_failures [of reliable iframe "''qqqq''"]
          postMessage_failures [of reliable ?s "''qqqq''"] a b
    by (metis prod.collapse)
qed

section \<open>The listener's filters\<close>

text \<open>
  C8. An event whose origin differs from the target makes the listener raise
  \<open>Origin does not match expected target\<close> at once: the service is unchanged, nothing is
  posted or logged, no handler is called and no handshake step is taken.
\<close>

theorem listener_origin_mismatch:
  "origin event \<noteq> target s \<Longrightarrow> listener env s event = Some (s, [], Some OriginMismatch)"
  by (simp add: listener_def)

theorem listener_origin_mismatch_witness:
  "listener reliable iframe
     ((handshake_event ''SYN'' ''111111'' ''mainWindow'' 1 (Some 3))\<lparr>origin := ''http://127.0.0.1:8080''\<rparr>)
   = Some (iframe, [], Some OriginMismatch)"
proof -
  let ?event = "(handshake_event ''SYN'' ''111111'' ''mainWindow'' 1 (Some 3))\<lparr>origin := ''http://127.0.0.1:8080''\<rparr>"
  have "origin ?event \<noteq> target iframe"
    by (simp add: iframe_def demo_target_def)
  then show ?thesis
    by (rule listener_origin_mismatch)
qed




section \<open>Routing of the listener\<close>


lemma listener_handshake:
  "origin event = target s \<Longrightarrow> data event = JObject m \<Longrightarrow> state_truthy m \<Longrightarrow>
   listener env s event = Some (after_effects (receive_log s) (on_message env s (source event) m))"
  by (simp add: listener_def truthy_def initialize_def)


lemma listener_application:
  "origin event = target s \<Longrightarrow> data event = JObject m \<Longrightarrow> \<not> state_truthy m \<Longrightarrow>
   listener env s event = map_option (after_effects (receive_log s)) (dispatchEvent env s m)"
  by (simp add: listener_def truthy_def)

lemma postMessage_service: "fst (postMessage env s d) = s"
  by (simp add: postMessage_def split: prod.splits)

lemma postMessage_st_service: "fst (postMessage_st env s d) = s"
  by (simp add: postMessage_st_def split: prod.splits)

lemma dispatchEvent_channels:
  "dispatchEvent env s m = Some result \<Longrightarrow> channels (fst result) = channels s"
  by (auto simp: dispatchEvent_def split: if_splits option.splits)

lemma dispatchEvent_st_channels:
  "dispatchEvent_st env s m = Some result \<Longrightarrow> channels (fst result) = channels s"
  by (auto simp: dispatchEvent_st_def split: if_splits option.splits)






section \<open>Replies for unknown and for initialized tokens\<close>








section \<open>The answer to \<open>SYN\<close>\<close>








section \<open>Initialized channels know their destination\<close>

lemma list_all_update:
  "list_all P xs \<Longrightarrow> P (k, v) \<Longrightarrow> list_all P (AList.update k v xs)"
  by (induction xs) auto

lemma initialized_known_set:
  "initialized_known s \<Longrightarrow> (initialized c \<longrightarrow> destination c \<noteq> UNKNOWN_DESTINATION) \<Longrightarrow>
   initialized_known (s\<lparr>channels := set_entry k c (channels s)\<rparr>)"
  by (simp add: initialized_known_def set_entry_def list_all_update)

lemma initialized_known_channels:
  "channels s' = channels s \<Longrightarrow> initialized_known s' = initialized_known s"
  by (simp add: initialized_known_def)

lemma on_message_known:
  assumes "initialized_known s" and "msg_source m \<noteq> UNKNOWN_DESTINATION"
  shows "initialized_known (fst (on_message env s src m))"
  using assms
  by (auto simp: on_message_def fst_after_effects Let_def intro!: initialized_known_set
           split: option.splits prod.splits)

lemma listener_falsy:
  assumes "origin event = target s" and "\<not> truthy (data event)"
  shows "listener env s event = Some (s, receive_log s, None)"
  using assms by (simp add: listener_def after_effects_def)

lemma listener_service_cases:
  assumes "listener env s event = Some result"
  shows "fst result = s
       \<or> (\<exists>m. data event = JObject m \<and> fst result = fst (on_message env s (source event) m))
       \<or> channels (fst result) = channels s"
proof (cases "origin event = target s")
  case False
  with assms have "result = (s, [], Some OriginMismatch)"
    by (simp add: listener_def)
  then show ?thesis by simp
next
  case True
  show ?thesis
  proof (cases "\<exists>m. data event = JObject m")
    case False
    then have "\<not> truthy (data event)"
      by (cases "data event") (simp_all add: truthy_def)
    with \<open>origin event = target s\<close> have "listener env s event = Some (s, receive_log s, None)"
      by (rule listener_falsy)
    with assms have "result = (s, receive_log s, None)" by simp
    then show ?thesis by simp
  next
    case True
    then obtain m where m: "data event = JObject m" by blast
    show ?thesis
    proof (cases "state_truthy m")
      case True
      from \<open>origin event = target s\<close> m True
      have "listener env s event = Some (after_effects (receive_log s) (on_message env s (source event) m))"
        by (rule listener_handshake)
      with assms have "result = after_effects (receive_log s) (on_message env s (source event) m)"
        by simp
      then have "fst result = fst (on_message env s (source event) m)"
        by (simp add: fst_after_effects)
      with m show ?thesis by blast
    next
      case False
      from \<open>origin event = target s\<close> m False
      have "listener env s event = map_option (after_effects (receive_log s)) (dispatchEvent env s m)"
        by (rule listener_application)
      with assms have "map_option (after_effects (receive_log s)) (dispatchEvent env s m) = Some result"
        by simp
      then obtain r where r: "dispatchEvent env s m = Some r"
        and res: "result = after_effects (receive_log s) r"
        by (cases "dispatchEvent env s m") auto
      from res have "fst result = fst r" by (simp add: fst_after_effects)
      with dispatchEvent_channels [OF r] show ?thesis by simp
    qed
  qed
qed

lemma listener_known:
  assumes "initialized_known s" and "sentinel_free (Receive event)"
    and "listener env s event = Some result"
  shows "initialized_known (fst result)"
proof -
  from listener_service_cases [OF assms(3)]
  consider "fst result = s"
    | m where "data event = JObject m" "fst result = fst (on_message env s (source event) m)"
    | "channels (fst result) = channels s"
    by blast
  then show ?thesis
  proof cases
    case 1
    with assms(1) show ?thesis by simp
  next
    case (2 m)
    from assms(2) 2(1) have "msg_source m \<noteq> UNKNOWN_DESTINATION"
      by (simp add: sentinel_free_def)
    with assms(1) have "initialized_known (fst (on_message env s (source event) m))"
      by (rule on_message_known)
    with 2(2) show ?thesis by simp
  next
    case 3
    then have "initialized_known (fst result) = initialized_known s"
      by (rule initialized_known_channels)
    with assms(1) show ?thesis by simp
  qed
qed

lemma connectToFrame_service:
  "fst (connectToFrame env rnd s) = s \<or>
   (\<exists>w. fst (connectToFrame env rnd s) =
      s\<lparr>channels := set_entry rnd \<lparr>destination = UNKNOWN_DESTINATION, initialized = False,
                                    token = rnd, window = Some w\<rparr> (channels s)\<rparr>)"
proof (cases "frame s")
  case None
  then show ?thesis by (simp add: connectToFrame_def)
next
  case (Some f)
  show ?thesis
  proof (cases "contentWindow f")
    case None
    with Some show ?thesis by (simp add: connectToFrame_def)
  next
    case (Some w)
    with \<open>frame s = Some f\<close>
    have "fst (connectToFrame env rnd s) =
            s\<lparr>channels := set_entry rnd \<lparr>destination = UNKNOWN_DESTINATION, initialized = False,
                                          token = rnd, window = Some w\<rparr> (channels s)\<rparr>"
      by (simp add: connectToFrame_def Let_def split: prod.splits)
    then show ?thesis by blast
  qed
qed

lemma connectToFrame_known:
  assumes "initialized_known s"
  shows "initialized_known (fst (connectToFrame env rnd s))"
proof -
  from connectToFrame_service [of env rnd s]
  consider "fst (connectToFrame env rnd s) = s"
    | w where "fst (connectToFrame env rnd s) =
        s\<lparr>channels := set_entry rnd \<lparr>destination = UNKNOWN_DESTINATION, initialized = False,
                                      token = rnd, window = Some w\<rparr> (channels s)\<rparr>"
    by blast
  then show ?thesis
  proof cases
    case 1
    with assms show ?thesis by simp
  next
    case (2 w)
    have "initialized_known
            (s\<lparr>channels := set_entry rnd \<lparr>destination = UNKNOWN_DESTINATION, initialized = False,
                                          token = rnd, window = Some w\<rparr> (channels s)\<rparr>)"
      using assms by (rule initialized_known_set) simp
    with 2 show ?thesis by simp
  qed
qed

lemma step_known:
  assumes "initialized_known s" and "sentinel_free a"
  shows "initialized_known (step env s a)"
proof (cases a)
  case (TimerFires rnd r timerId)
  with assms show ?thesis by (simp add: connectToFrame_known)
next
  case (Receive event)
  show ?thesis
  proof (cases "listener env s event")
    case None
    with Receive assms show ?thesis by simp
  next
    case (Some result)
    from assms(2) Receive have "sentinel_free (Receive event)" by simp
    with assms(1) have "initialized_known (fst result)"
      using Some by (rule listener_known)
    with Receive Some show ?thesis by simp
  qed
next
  case (CallPostMessage d)
  with assms show ?thesis by (simp add: postMessage_service)
next
  case (CallAddMessageHandler handlerId handler)
  with assms show ?thesis by (simp add: addMessageHandler_def initialized_known_def)
next
  case (CallRemoveMessageHandler handlerId)
  with assms show ?thesis by (simp add: removeMessageHandler_def initialized_known_def)
qed

lemma run_known:
  "initialized_known s \<Longrightarrow> \<forall>a\<in>set acts. sentinel_free a \<Longrightarrow> initialized_known (run env s acts)"
  unfolding run_def
  by (induction acts arbitrary: s) (simp_all add: step_known)

text \<open>
  C7. Take a service of \<^verbatim>\<open>src/connection.ts\<close> as its constructor builds it and let
  it run: the timer fires, events arrive, the owner posts, adds and removes handlers,
  in any order. If no message that arrives names the sentinel \<open>UNKNOWN_DESTINATION\<close>
  as its source, then every channel of the registry that is initialized has a
  destination other than the sentinel.
\<close>

theorem initialized_implies_known_destination:
  assumes "constructor tgt frm overrideId lg rnd timerId = Inr (s0, es)"
    and "\<forall>a\<in>set acts. sentinel_free a"
  shows "\<forall>entry\<in>set (channels (run env s0 acts)).
           initialized (snd entry) \<longrightarrow> destination (snd entry) \<noteq> UNKNOWN_DESTINATION"
proof -
  have "channels s0 = []"
    using assms(1) by (auto simp: constructor_def Let_def split: if_splits option.splits)
  then have "initialized_known s0"
    by (simp add: initialized_known_def)
  then have "initialized_known (run env s0 acts)"
    using assms(2) by (rule run_known)
  then show ?thesis
    by (auto simp: initialized_known_def list_all_iff)
qed

theorem initialized_implies_known_destination_witness:
  "filter (\<lambda>entry. initialized (snd entry) \<and> destination (snd entry) = UNKNOWN_DESTINATION)
     (channels (run reliable mainWindow
        [TimerFires ''111111'' 10 2,
         Receive (handshake_event ''SYN+ACK'' ''111111'' ''iframe'' 2 (Some 7)),
         CallPostMessage ''qqqq'',
         Receive (handshake_event ''SYN'' ''222222'' ''secondWindow'' 1 (Some 4)),
         TimerFires ''333333'' 10 2])) = []"
proof -
  let ?acts = "[TimerFires ''111111'' 10 2,
         Receive (handshake_event ''SYN+ACK'' ''111111'' ''iframe'' 2 (Some 7)),
         CallPostMessage ''qqqq'',
         Receive (handshake_event ''SYN'' ''222222'' ''secondWindow'' 1 (Some 4)),
         TimerFires ''333333'' 10 2]"
  have a: "constructor demo_target (Some (IFrame (Some 7))) (Some ''mainWindow'') None ''000000'' 1
             = (Inr (mainWindow, [SetInterval 1])
                  :: Error + Channel MessagingService \<times> (string, int) Effect list)"
    by (simp add: constructor_def mainWindow_def demo_target_def WILDCARD_TARGET_def)
  have b: "\<forall>a\<in>set ?acts. sentinel_free a"
    by (simp add: sentinel_free_def handshake_event_def handshake_message_def UNKNOWN_DESTINATION_def)
  show ?thesis
    using initialized_implies_known_destination [OF a b, of reliable]
    by (simp add: filter_empty_conv)
qed

section \<open>The timer fires\<close>

lemma connectToFrame_st_ongoing:
  "list_ex (\<lambda>(key, val). state val \<noteq> ''SYN'') (channels s) \<Longrightarrow>
   connectToFrame_st env rnd r timerId frm s = (s, [], None)"
  by (simp add: connectToFrame_st_def)

lemma connectToFrame_st_fresh:
  "\<not> list_ex (\<lambda>(key, val). state val \<noteq> ''SYN'') (channels s) \<Longrightarrow>
   channels (fst (connectToFrame_st env rnd r timerId frm s)) =
     [(rnd, \<lparr>destination = UNKNOWN_DESTINATION, initialized = False, token = rnd,
             window = contentWindow frm, state = ''SYN''\<rparr>)]"
  by (simp add: connectToFrame_st_def Let_def set_entry_def delayConnectToFrame_def
        split: prod.splits option.splits)

lemma filter_update_le:
  "\<not> P (k, v) \<Longrightarrow> length (filter P (AList.update k v xs)) \<le> length (filter P xs)"
  by (induction xs) auto

lemma syn_channels_set:
  "state c \<noteq> ''SYN'' \<Longrightarrow>
   length (syn_channels (s\<lparr>channels := set_entry k c (channels s)\<rparr>)) \<le> length (syn_channels s)"
  by (simp add: syn_channels_def set_entry_def filter_update_le)

lemma on_message_st_syn_channels:
  "length (syn_channels (fst (on_message_st env s src m))) \<le> length (syn_channels s)"
proof -
  have a: "\<And>c. state c \<noteq> ''SYN'' \<Longrightarrow>
      length (syn_channels (s\<lparr>channels := set_entry (msg_token m) c (channels s)\<rparr>)) \<le> length (syn_channels s)"
    by (rule syn_channels_set)
  show ?thesis
    by (auto simp: on_message_st_def fst_after_effects Let_def a split: option.splits prod.splits)
qed

lemma listener_st_syn_channels:
  assumes "listener_st env s event = Some result"
  shows "length (syn_channels (fst result)) \<le> length (syn_channels s)"
proof (cases "data event")
  case (JObject m)
  show ?thesis
  proof (cases "origin event = target s \<and> \<not> state_truthy m")
    case True
    with assms JObject have r: "dispatchEvent_st env s m = Some result"
      by (simp add: listener_st_def truthy_def)
    then have "channels (fst result) = channels s"
      by (rule dispatchEvent_st_channels)
    then show ?thesis by (simp add: syn_channels_def)
  next
    case False
    with assms JObject on_message_st_syn_channels [of env s "source event" m] show ?thesis
      by (auto simp: listener_st_def truthy_def initialize_st_def split: if_splits)
  qed
next
  case JNull
  with assms show ?thesis by (auto simp: listener_st_def truthy_def split: if_splits)
next
  case JUndefined
  with assms show ?thesis by (auto simp: listener_st_def truthy_def split: if_splits)
next
  case JZero
  with assms show ?thesis by (auto simp: listener_st_def truthy_def split: if_splits)
next
  case JEmptyString
  with assms show ?thesis by (auto simp: listener_st_def truthy_def split: if_splits)
next
  case JFalse
  with assms show ?thesis by (auto simp: listener_st_def truthy_def split: if_splits)
qed

lemma connectToFrame_st_syn_channels:
  "length (syn_channels s) \<le> 1 \<Longrightarrow>
   length (syn_channels (fst (connectToFrame_st env rnd r timerId frm s))) \<le> 1"
proof (cases "list_ex (\<lambda>(key, val). state val \<noteq> ''SYN'') (channels s)")
  case True
  assume "length (syn_channels s) \<le> 1"
  with True show ?thesis by (simp add: connectToFrame_st_ongoing)
next
  case False
  then show ?thesis
    by (simp add: syn_channels_def connectToFrame_st_fresh)
qed

lemma step_st_syn_channels:
  assumes "length (syn_channels s) \<le> 1"
  shows "length (syn_channels (step_st env s a)) \<le> 1"
proof (cases a)
  case (TimerFires rnd r timerId)
  show ?thesis
  proof (cases "frame s")
    case None
    with TimerFires assms show ?thesis by simp
  next
    case (Some frm)
    with TimerFires connectToFrame_st_syn_channels [OF assms, of env rnd r timerId frm]
    show ?thesis by simp
  qed
next
  case (Receive event)
  show ?thesis
  proof (cases "listener_st env s event")
    case None
    with Receive assms show ?thesis by simp
  next
    case (Some result)
    with Receive assms listener_st_syn_channels [of env s event result] show ?thesis by simp
  qed
next
  case (CallPostMessage d)
  with assms show ?thesis by (simp add: postMessage_st_service)
next
  case (CallAddMessageHandler handlerId handler)
  with assms show ?thesis by (simp add: addMessageHandler_def syn_channels_def)
next
  case (CallRemoveMessageHandler handlerId)
  with assms show ?thesis by (simp add: removeMessageHandler_def syn_channels_def)
qed

lemma run_st_syn_channels:
  "length (syn_channels s) \<le> 1 \<Longrightarrow> length (syn_channels (run_st env s acts)) \<le> 1"
  unfolding run_st_def
proof (induction acts arbitrary: s)
  case Nil
  then show ?case by simp
next
  case (Cons a acts)
  from Cons.prems have "length (syn_channels (step_st env s a)) \<le> 1"
    by (rule step_st_syn_channels)
  then have "length (syn_channels (foldl (step_st env) (step_st env s a) acts)) \<le> 1"
    by (rule Cons.IH)
  then show ?case by simp
qed

lemma constructor_st_channels:
  "constructor_st tgt frm overrideId lg rnd r timerId = Inr (s0, es) \<Longrightarrow> channels s0 = []"
  by (auto simp: constructor_st_def delayConnectToFrame_def Let_def split: if_splits option.splits)

lemma connectToFrame_keeps:
  assumes "frame s = Some frm" and "contentWindow frm = Some w"
  shows "channels (fst (connectToFrame env rnd s)) =
           set_entry rnd \<lparr>destination = UNKNOWN_DESTINATION, initialized = False, token = rnd,
                          window = Some w\<rparr> (channels s)"
  using assms by (simp add: connectToFrame_def Let_def split: prod.splits)

lemma length_update_ge: "length xs \<le> length (AList.update k v xs)"
  by (induction xs) auto

text \<open>
  C5, as amended. In the generation that keeps a state in each channel, a firing of
  the timer while some channel has a state other than \<open>SYN\<close> changes nothing and posts
  nothing; otherwise the registry is cleared and holds, after the call, exactly one
  channel: the new token, state \<open>SYN\<close>, destination \<open>UNKNOWN_DESTINATION\<close>, not
  initialized, the window of the frame. Hence a service of that generation never holds
  more than one channel in state \<open>SYN\<close>, in any run from its construction. In
  \<^verbatim>\<open>src/connection.ts\<close> a channel has no state and the timer never clears the
  registry: each firing on a frame that has a content window adds the new channel to
  those already there.
\<close>

theorem timer_fires:
  "(list_ex (\<lambda>(key, val). state val \<noteq> ''SYN'') (channels s') \<longrightarrow>
      connectToFrame_st env rnd r timerId frm s' = (s', [], None)) \<and>
   (\<not> list_ex (\<lambda>(key, val). state val \<noteq> ''SYN'') (channels s') \<longrightarrow>
      channels (fst (connectToFrame_st env rnd r timerId frm s')) =
        [(rnd, \<lparr>destination = UNKNOWN_DESTINATION, initialized = False, token = rnd,
                window = contentWindow frm, state = ''SYN''\<rparr>)]) \<and>
   (constructor_st tgt frm_opt overrideId lg self_rnd delay first_timer = Inr (init, es) \<longrightarrow>
      length (syn_channels (run_st env init acts)) \<le> 1) \<and>
   (frame s = Some frm \<and> contentWindow frm = Some w \<longrightarrow>
      channels (fst (connectToFrame env rnd s)) =
        set_entry rnd \<lparr>destination = UNKNOWN_DESTINATION, initialized = False, token = rnd,
                       window = Some w\<rparr> (channels s) \<and>
      length (channels s) \<le> length (channels (fst (connectToFrame env rnd s))))"
proof (intro conjI impI)
  assume "constructor_st tgt frm_opt overrideId lg self_rnd delay first_timer = Inr (init, es)"
  then have "channels init = []" by (rule constructor_st_channels)
  then have "length (syn_channels init) \<le> 1" by (simp add: syn_channels_def)
  then show "length (syn_channels (run_st env init acts)) \<le> 1" by (rule run_st_syn_channels)
next
  assume "frame s = Some frm \<and> contentWindow frm = Some w"
  then show "length (channels s) \<le> length (channels (fst (connectToFrame env rnd s)))"
    by (simp add: connectToFrame_keeps [of s frm w] set_entry_def length_update_ge)
qed (simp_all add: connectToFrame_st_ongoing connectToFrame_st_fresh connectToFrame_keeps)

theorem timer_fires_witness:
  "connectToFrame_st reliable ''222222'' 10 3 (IFrame (Some 7)) mainWindow_connected_st
     = (mainWindow_connected_st, [], None) \<and>
   channels (fst (connectToFrame_st reliable ''222222'' 10 3 (IFrame (Some 7)) mainWindow_waiting_st))
     = [(''222222'', \<lparr>destination = UNKNOWN_DESTINATION, initialized = False, token = ''222222'',
                      window = Some 7, state = ''SYN''\<rparr>)] \<and>
   length (syn_channels (run_st reliable mainWindow_st
      [TimerFires ''111111'' 10 2, TimerFires ''222222'' 10 3,
       Receive (handshake_event ''SYN'' ''444444'' ''secondWindow'' 1 (Some 4)),
       TimerFires ''333333'' 10 4])) \<le> 1 \<and>
   channels (fst (connectToFrame reliable ''222222'' mainWindow_waiting))
     = set_entry ''222222''
         \<lparr>destination = UNKNOWN_DESTINATION, initialized = False, token = ''222222'', window = Some 7\<rparr>
         (channels mainWindow_waiting)"
proof -
  have a: "list_ex (\<lambda>(key, val). state val \<noteq> ''SYN'') (channels mainWindow_connected_st)"
    by code_simp
  have b: "\<not> list_ex (\<lambda>(key, val). state val \<noteq> ''SYN'') (channels mainWindow_waiting_st)"
    by code_simp
  have c: "constructor_st demo_target (Some (IFrame (Some 7))) (Some ''mainWindow'') None ''000000'' 10 1
             = (Inr (mainWindow_st, [SetTimeout 1 14])
                  :: Error + StateChannel MessagingService \<times> (string, int) Effect list)"
    by (simp add: constructor_st_def delayConnectToFrame_def mainWindow_st_def demo_target_def
          WILDCARD_TARGET_def MINIMUM_TIMEOUT_def log_def)
  have d: "frame mainWindow_waiting = Some (IFrame (Some 7))"
    by code_simp
  have 1: "connectToFrame_st reliable ''222222'' 10 3 (IFrame (Some 7)) mainWindow_connected_st
             = (mainWindow_connected_st, [], None)"
    using timer_fires [where s' = mainWindow_connected_st and env = reliable and rnd = "''222222''"
                         and r = 10 and timerId = 3 and frm = "IFrame (Some 7)",
                       THEN conjunct1, THEN mp, OF a]
    by simp
  have 2: "channels (fst (connectToFrame_st reliable ''222222'' 10 3 (IFrame (Some 7)) mainWindow_waiting_st))
     = [(''222222'', \<lparr>destination = UNKNOWN_DESTINATION, initialized = False, token = ''222222'',
                      window = Some 7, state = ''SYN''\<rparr>)]"
    using timer_fires [where s' = mainWindow_waiting_st and env = reliable and rnd = "''222222''"
                         and r = 10 and timerId = 3 and frm = "IFrame (Some 7)",
                       THEN conjunct2, THEN conjunct1, THEN mp, OF b]
    by simp
  have 3: "length (syn_channels (run_st reliable mainWindow_st
      [TimerFires ''111111'' 10 2, TimerFires ''222222'' 10 3,
       Receive (handshake_event ''SYN'' ''444444'' ''secondWindow'' 1 (Some 4)),
       TimerFires ''333333'' 10 4])) \<le> 1"
    using timer_fires [where init = mainWindow_st and env = reliable and tgt = demo_target
                         and frm_opt = "Some (IFrame (Some 7))" and overrideId = "Some ''mainWindow''"
                         and lg = None and self_rnd = "''000000''" and delay = 10 and first_timer = 1
                         and es = "[SetTimeout 1 14] :: (string, int) Effect list",
                       THEN conjunct2, THEN conjunct2, THEN conjunct1, THEN mp, OF c]
    by simp
  have 4: "channels (fst (connectToFrame reliable ''222222'' mainWindow_waiting))
     = set_entry ''222222''
         \<lparr>destination = UNKNOWN_DESTINATION, initialized = False, token = ''222222'', window = Some 7\<rparr>
         (channels mainWindow_waiting)"
    using timer_fires [where s = mainWindow_waiting and env = reliable and rnd = "''222222''"
                         and frm = "IFrame (Some 7)" and w = 7,
                       THEN conjunct2, THEN conjunct2, THEN conjunct2, THEN mp, THEN conjunct1] d
    by simp
  from 1 2 3 4 show ?thesis by blast
qed

text \<open>
  C5 as stated fails in \<^verbatim>\<open>src/connection.ts\<close>: the window's service, built by the
  constructor, holds after two firings of its timer both channels, neither initialized
  and both waiting for a first reply.
\<close>

theorem timer_keeps_channels_counterexample:
  "constructor demo_target (Some (IFrame (Some 7))) (Some ''mainWindow'') None ''000000'' 1
     = (Inr (mainWindow, [SetInterval 1])
          :: Error + Channel MessagingService \<times> (string, int) Effect list) \<and>
   channels (run reliable mainWindow [TimerFires ''111111'' 10 2, TimerFires ''222222'' 10 3])
     = [(''111111'', \<lparr>destination = ''UNKNOWN_DESTINATION'', initialized = False,
                      token = ''111111'', window = Some 7\<rparr>),
        (''222222'', \<lparr>destination = ''UNKNOWN_DESTINATION'', initialized = False,
                      token = ''222222'', window = Some 7\<rparr>)]"
proof (intro conjI)
  show "constructor demo_target (Some (IFrame (Some 7))) (Some ''mainWindow'') None ''000000'' 1
     = (Inr (mainWindow, [SetInterval 1])
          :: Error + Channel MessagingService \<times> (string, int) Effect list)"
    by (simp add: constructor_def mainWindow_def demo_target_def WILDCARD_TARGET_def)
qed code_simp

section \<open>Iterations that a raise cuts short\<close>



section \<open>\<open>postMessage\<close> with a channel that is initialized\<close>














section \<open>Dispatch to the handlers\<close>








lemma service_handlers_same: "s\<lparr>handlers := handlers s\<rparr> = s"
  by simp






end
